theory Spec2Isabelle
  imports Complex_Main "HOL-Library.AList"
begin

section \<open>JavaScript values\<close>

text \<open>
  The values that travel through the validator: request parameters, rule options, default
  values, thrown values. A finite number is a rational (every finite double is one), with
  NaN and the two infinities apart; negative zero is identified with zero, both being falsy.
  An object is a plain object, given by the list of its own properties; \<open>JNative\<close> stands
  for a function or an object of the runtime, such as what a plain object inherits.
\<close>

datatype jsval =
    JUndefined
  | JNull
  | JBool bool
  | JNum rat
  | JNaN
  | JInf bool
  | JStr string
  | JArr "jsval list"
  | JObj "(string \<times> jsval) list"
  | JNative

text \<open>\<^verbatim>\<open>!value\<close> is \<open>\<not> truthy value\<close>; \<^verbatim>\<open>value == null\<close> is \<open>nullish value\<close>.\<close>

fun truthy :: "jsval \<Rightarrow> bool" where
  "truthy JUndefined = False"
| "truthy JNull = False"
| "truthy (JBool b) = b"
| "truthy (JNum r) = (r \<noteq> 0)"
| "truthy JNaN = False"
| "truthy (JInf _) = True"
| "truthy (JStr s) = (s \<noteq> [])"
| "truthy (JArr _) = True"
| "truthy (JObj _) = True"
| "truthy JNative = True"

fun nullish :: "jsval \<Rightarrow> bool" where
  "nullish JUndefined = True"
| "nullish JNull = True"
| "nullish _ = False"

text \<open>
  The properties every plain object inherits from \<^verbatim>\<open>Object.prototype\<close>.
\<close>

definition object_prototype_keys :: "string list" where
  "object_prototype_keys =
     [''constructor'', ''__defineGetter__'', ''__defineSetter__'', ''hasOwnProperty'',
      ''__lookupGetter__'', ''__lookupSetter__'', ''isPrototypeOf'', ''propertyIsEnumerable'',
      ''toString'', ''valueOf'', ''__proto__'', ''toLocaleString'']"

text \<open>
  Property access \<^verbatim>\<open>object[key]\<close> on a value that is not null or undefined: an own
  property of a plain object, else what the object inherits. The properties of a
  primitive, an array or a native object (the length and the indices of a string or an
  array, inherited methods) are outside the model: there the result is undefined.
\<close>

fun getProp :: "jsval \<Rightarrow> string \<Rightarrow> jsval" where
  "getProp (JObj ps) k =
     (case map_of ps k of
        Some x \<Rightarrow> x
      | None \<Rightarrow> if k \<in> set object_prototype_keys then JNative else JUndefined)"
| "getProp _ _ = JUndefined"

subsection \<open>Character classes\<close>

definition is_upper :: "char \<Rightarrow> bool" where
  "is_upper c = (65 \<le> (of_char c :: nat) \<and> (of_char c :: nat) \<le> 90)"

definition is_digit :: "char \<Rightarrow> bool" where
  "is_digit c = (48 \<le> (of_char c :: nat) \<and> (of_char c :: nat) \<le> 57)"

text \<open>The class \<^verbatim>\<open>\w\<close> of regular expressions.\<close>

definition is_word :: "char \<Rightarrow> bool" where
  "is_word c = (is_upper c \<or> (97 \<le> (of_char c :: nat) \<and> (of_char c :: nat) \<le> 122)
     \<or> is_digit c \<or> c = CHR ''_'')"

subsection \<open>lodash: property paths\<close>


















subsection \<open>lodash: get and set along a path\<close>

text \<open>
  \<^verbatim>\<open>baseGet\<close> of lodash: walk the keys while the current object is not null or undefined.
  \<^verbatim>\<open>_.get(object, path, defaultValue)\<close> gives the default when the walk ends in undefined
  (and for the empty path).
\<close>

fun baseGet :: "jsval \<Rightarrow> string list \<Rightarrow> jsval" where
  "baseGet obj [] = obj"
| "baseGet obj (k # ks) = (if nullish obj then JUndefined else baseGet (getProp obj k) ks)"

definition lodash_get :: "jsval \<Rightarrow> string list \<Rightarrow> jsval \<Rightarrow> jsval" where
  "lodash_get obj path dflt =
     (let r = (if path = [] then JUndefined else baseGet obj path)
      in if r = JUndefined then dflt else r)"


text \<open>
  \<^verbatim>\<open>_.set(object, path, value)\<close> with an array path: nothing happens to a value that is
  not an object; an intermediate property that is not an object is replaced by a fresh
  object; and at the keys \<^verbatim>\<open>__proto__\<close>, \<^verbatim>\<open>constructor\<close> and \<^verbatim>\<open>prototype\<close> the walk
  stops and nothing more is written (recent versions of lodash). lodash makes the fresh
  container an array when the next key is an index, and keeps an intermediate that is an
  array or a native object; the model takes a fresh plain object in both cases.
\<close>

definition guarded_key :: "string \<Rightarrow> bool" where
  "guarded_key k = (k = ''__proto__'' \<or> k = ''constructor'' \<or> k = ''prototype'')"

fun lodash_set :: "jsval \<Rightarrow> string list \<Rightarrow> jsval \<Rightarrow> jsval" where
  "lodash_set (JObj ps) [k] x = (if guarded_key k then JObj ps else JObj (AList.update k x ps))"
| "lodash_set (JObj ps) (k # k' # ks) x =
     (if guarded_key k then JObj ps
      else JObj (AList.update k
             (lodash_set (case map_of ps k of Some (JObj c) \<Rightarrow> JObj c | _ \<Rightarrow> JObj []) (k' # ks) x)
             ps))"
| "lodash_set obj _ _ = obj"

section \<open>The host: predicate catalog and built-ins\<close>

text \<open>
  The validator works over collaborators that are not part of the repository: the catalog
  of named predicates of validator.js (\<^verbatim>\<open>validator[name]\<close>, absent for an unknown name),
  \<^verbatim>\<open>parseInt\<close>, \<^verbatim>\<open>parseFloat\<close>, and the conversion of a value to a string
  (\<^verbatim>\<open>value + ''\<close>, a template literal). They are parameters of the model.
\<close>

record host =
  catalog :: "string \<Rightarrow> (string \<Rightarrow> jsval list \<Rightarrow> bool) option"
  parseInt :: "jsval \<Rightarrow> jsval"
  parseFloat :: "jsval \<Rightarrow> jsval"
  toString :: "jsval \<Rightarrow> string"

text \<open>
  A string converts to itself, an array to its elements joined by commas (null and
  undefined elements give the empty string); everything else is the host's business.
\<close>

fun join_comma :: "string list \<Rightarrow> string" where
  "join_comma [] = []"
| "join_comma [x] = x"
| "join_comma (x # y # ys) = x @ '','' @ join_comma (y # ys)"

fun to_str :: "host \<Rightarrow> jsval \<Rightarrow> string" where
  "to_str h (JStr s) = s"
| "to_str h (JArr xs) = join_comma (map (\<lambda>x. if nullish x then [] else to_str h x) xs)"
| "to_str h v = toString h v"

subsection \<open>Messages of the source\<close>

text \<open>The string literals of the source, as UTF-8 bytes.\<close>

definition msg_param_error :: string where
  "msg_param_error = [CHR 0xE5, CHR 0x8F, CHR 0x82, CHR 0xE6, CHR 0x95, CHR 0xB0, CHR 0xE9,
     CHR 0x94, CHR 0x99, CHR 0xE8, CHR 0xAF, CHR 0xAF]"

definition msg_required :: string where
  "msg_required = [CHR 0xE5, CHR 0xAD, CHR 0x97, CHR 0xE6, CHR 0xAE, CHR 0xB5, CHR 0xE6,
     CHR 0x98, CHR 0xAF, CHR 0xE5, CHR 0xBF, CHR 0x85, CHR 0xE5, CHR 0xA1, CHR 0xAB, CHR 0xE5,
     CHR 0x8F, CHR 0x82, CHR 0xE6, CHR 0x95, CHR 0xB0]"

definition colon :: string where
  "colon = [CHR 0xEF, CHR 0xBC, CHR 0x9A]"

definition msg_in_validator :: string where
  "msg_in_validator = [CHR 0xE6, CHR 0xA0, CHR 0xA1, CHR 0xE9, CHR 0xAA, CHR 0x8C, CHR 0xE5,
     CHR 0x99, CHR 0xA8, CHR 0xE4, CHR 0xB8, CHR 0xAD]"

definition msg_not_all_rules :: string where
  "msg_not_all_rules = [CHR 0xE5, CHR 0xAD, CHR 0x97, CHR 0xE6, CHR 0xAE, CHR 0xB5, CHR 0xE7,
     CHR 0x9A, CHR 0x84, CHR 0xE9, CHR 0xAA, CHR 0x8C, CHR 0xE8, CHR 0xAF, CHR 0x81, CHR 0xE6,
     CHR 0x95, CHR 0xB0, CHR 0xE7, CHR 0xBB, CHR 0x84, CHR 0xE5, CHR 0xBF, CHR 0x85, CHR 0xE9,
     CHR 0xA1, CHR 0xBB, CHR 0xE5, CHR 0x85, CHR 0xA8, CHR 0xE9, CHR 0x83, CHR 0xA8, CHR 0xE4,
     CHR 0xB8, CHR 0xBA, CHR 0x52, CHR 0x75, CHR 0x6C, CHR 0x65, CHR 0xE7, CHR 0xB1, CHR 0xBB,
     CHR 0xE5, CHR 0x9E, CHR 0x8B]"

definition msg_no_default :: string where
  "msg_no_default = [CHR 0xE5, CHR 0xAD, CHR 0x97, CHR 0xE6, CHR 0xAE, CHR 0xB5, CHR 0xE6,
     CHR 0xB2, CHR 0xA1, CHR 0xE6, CHR 0x9C, CHR 0x89, CHR 0xE5, CHR 0xAF, CHR 0xB9, CHR 0xE5,
     CHR 0x8F, CHR 0xAF, CHR 0xE9, CHR 0x80, CHR 0x89, CHR 0xE5, CHR 0x8F, CHR 0x82, CHR 0xE6,
     CHR 0x95, CHR 0xB0, CHR 0xE8, CHR 0xAE, CHR 0xBE, CHR 0xE7, CHR 0xBD, CHR 0xAE, CHR 0xE9,
     CHR 0xBB, CHR 0x98, CHR 0xE8, CHR 0xAE, CHR 0xA4, CHR 0xE7, CHR 0x9A, CHR 0x84, CHR 0xE5,
     CHR 0x8F, CHR 0x82, CHR 0xE6, CHR 0x95, CHR 0xB0, CHR 0xE5, CHR 0x80, CHR 0xBC, CHR 0xEF,
     CHR 0xBC, CHR 0x81]"

section \<open>Errors\<close>

text \<open>
  What a call can throw: the structured rejection \<^verbatim>\<open>ParameterException(code, messages)\<close>,
  a plain \<^verbatim>\<open>Error(message)\<close> for a mistake in the validator's definition, and the
  \<^verbatim>\<open>TypeError\<close> the runtime raises (calling what is not a function, reading a property
  of null or undefined, iterating what is not iterable).
\<close>

datatype error =
    ParameterException nat "string list"
  | Error string
  | TypeError

section \<open>Rule\<close>

datatype Rule = Rule (name: string) (message: jsval) (options: "jsval list")

record RuleResult =
  pass :: bool
  rmessage :: jsval

record RuleFieldResult = RuleResult +
  legalValue :: jsval

text \<open>
  \<^verbatim>\<open>Rule.validate(value)\<close>. The first component is the list of the names looked up in the
  catalog during the call.
\<close>

definition Rule_validate :: "host \<Rightarrow> Rule \<Rightarrow> jsval \<Rightarrow> string list \<times> (error + RuleResult)" where
  "Rule_validate h r v =
     (if name r = ''isOptional'' then ([], Inr \<lparr>pass = True, rmessage = JStr []\<rparr>)
      else (case catalog h (name r) of
              None \<Rightarrow> ([name r], Inl TypeError)
            | Some p \<Rightarrow>
                if \<not> p (to_str h v) (options r)
                then ([name r], Inr \<lparr>pass = False,
                        rmessage = (if truthy (message r) then message r else JStr msg_param_error)\<rparr>)
                else ([name r], Inr \<lparr>pass = True, rmessage = JStr []\<rparr>)))"

section \<open>RuleField\<close>

text \<open>
  An element of a declared array is a Rule instance or something else (a value other than
  null and undefined that is no Rule, such as a string): reading its \<^verbatim>\<open>name\<close> gives
  undefined, calling its \<^verbatim>\<open>validate\<close> raises.
\<close>

datatype elem = RuleE Rule | NotRule

fun ename :: "elem \<Rightarrow> string option" where
  "ename (RuleE r) = Some (name r)"
| "ename NotRule = None"

fun allowEmpty :: "elem list \<Rightarrow> bool" where
  "allowEmpty [] = False"
| "allowEmpty (e # es) = (if ename e = Some ''isOptional'' then True else allowEmpty es)"

fun hasDefault :: "elem list \<Rightarrow> jsval" where
  "hasDefault [] = JUndefined"
| "hasDefault (RuleE r # es) =
     (if name r = ''isOptional'' then (case options r of [] \<Rightarrow> JUndefined | x # _ \<Rightarrow> x)
      else hasDefault es)"
| "hasDefault (NotRule # es) = hasDefault es"

fun convert :: "host \<Rightarrow> elem list \<Rightarrow> jsval \<Rightarrow> jsval" where
  "convert h [] v = v"
| "convert h (e # es) v =
     (if ename e = Some ''isInt'' then parseInt h v
      else if ename e = Some ''isFloat'' then parseFloat h v
      else if ename e = Some ''isBoolean'' then JBool (truthy v)
      else convert h es v)"

text \<open>
  The loop of \<^verbatim>\<open>RuleField.validate\<close> over the rules: every rule is run, the messages of
  the failed ones are pushed in order; an exception ends the loop.
\<close>

fun run_rules :: "host \<Rightarrow> elem list \<Rightarrow> jsval \<Rightarrow> jsval list \<Rightarrow> string list \<times> (error + jsval list)" where
  "run_rules h [] v errorMessages = ([], Inr errorMessages)"
| "run_rules h (NotRule # es) v errorMessages = ([], Inl TypeError)"
| "run_rules h (RuleE r # es) v errorMessages =
     (case Rule_validate h r v of
        (t, Inl e) \<Rightarrow> (t, Inl e)
      | (t, Inr result) \<Rightarrow>
          (case run_rules h es v
                  (if \<not> pass result then errorMessages @ [rmessage result] else errorMessages) of
             (t', res) \<Rightarrow> (t @ t', res)))"

text \<open>
  \<^verbatim>\<open>new RuleField(rules, target, field).validate(value)\<close>; \<open>cn\<close> is
  \<^verbatim>\<open>target.constructor.name\<close>. The first component lists the catalog lookups.
\<close>

definition RuleField_validate ::
  "host \<Rightarrow> string \<Rightarrow> string \<Rightarrow> elem list \<Rightarrow> jsval \<Rightarrow> string list \<times> (error + RuleFieldResult)" where
  "RuleField_validate h cn field rules v =
     (if nullish v then
        (if allowEmpty rules then
           (if \<not> truthy (hasDefault rules)
            then ([], Inl (Error (cn @ msg_in_validator @ field @ msg_no_default)))
            else ([], Inr \<lparr>pass = True, rmessage = JStr [], legalValue = hasDefault rules\<rparr>))
         else ([], Inr \<lparr>pass = False, rmessage = JStr msg_required, legalValue = JNull\<rparr>))
      else
        (case run_rules h rules v [] of
           (t, Inl e) \<Rightarrow> (t, Inl e)
         | (t, Inr errorMessages) \<Rightarrow>
             if errorMessages \<noteq> []
             then (t, Inr \<lparr>pass = False, rmessage = JArr errorMessages, legalValue = JNull\<rparr>)
             else (t, Inr \<lparr>pass = True, rmessage = JStr [], legalValue = convert h rules v\<rparr>)))"

section \<open>Member discovery\<close>

text \<open>
  A member of a validator is a function (a custom check: given the raw parameters it
  returns, or throws a value), an array, a string, or anything else that cannot be
  iterated (a number, a boolean, a plain object, null, undefined). A custom check is taken
  to settle and to leave the validator alone.
\<close>

datatype member = Func "jsval \<Rightarrow> jsval option" | Arr "elem list" | Str string | Other

text \<open>
  What \<^verbatim>\<open>for (const rule of rules)\<close> runs through: the elements of an array, the
  characters of a string (none of them a Rule; only their number matters, and only whether
  it is zero); anything else raises a TypeError.
\<close>

fun rule_elements :: "member option \<Rightarrow> elem list option" where
  "rule_elements (Some (Arr es)) = Some es"
| "rule_elements (Some (Str s)) = Some (map (\<lambda>_. NotRule) s)"
| "rule_elements _ = None"

text \<open>
  An object: its own properties, in the order of \<^verbatim>\<open>Reflect.ownKeys\<close>, and its
  \<^verbatim>\<open>__proto__\<close> (\<open>None\<close> for null). Keys are strings.
\<close>

datatype obj = Obj (ownProps: "(string \<times> member) list") (proto: "obj option")

text \<open>\<^verbatim>\<open>obj[key]\<close>: the nearest property of that name along the prototype chain.\<close>

fun getMember :: "obj \<Rightarrow> string \<Rightarrow> member option" where
  "getMember (Obj ps pr) k =
     (case map_of ps k of
        Some m \<Rightarrow> Some m
      | None \<Rightarrow> (case pr of None \<Rightarrow> None | Some p \<Rightarrow> getMember p k))"

record find_options =
  filter_opt :: "(string \<Rightarrow> error + bool) option"
  prefix :: "string option"
  specifiedType :: "(member \<Rightarrow> bool) option"

text \<open>\<^verbatim>\<open>_shouldKeep(key)\<close>; \<open>obj\<close> is the object \<^verbatim>\<open>findMembers\<close> was called on.\<close>

definition shouldKeep :: "obj \<Rightarrow> find_options \<Rightarrow> string \<Rightarrow> error + bool" where
  "shouldKeep obj opts key =
     (case (case filter_opt opts of None \<Rightarrow> Inr False | Some f \<Rightarrow> f key) of
        Inl e \<Rightarrow> Inl e
      | Inr True \<Rightarrow> Inr True
      | Inr False \<Rightarrow>
          if (case prefix opts of None \<Rightarrow> False | Some p \<Rightarrow> p \<noteq> [] \<and> take (length p) key = p)
          then Inr True
          else if (case specifiedType opts of
                     None \<Rightarrow> False
                   | Some T \<Rightarrow> (case getMember obj key of None \<Rightarrow> False | Some m \<Rightarrow> T m))
          then Inr True
          else Inr False)"

text \<open>\<^verbatim>\<open>keys.filter(...)\<close> with a callback that may throw.\<close>

fun filter_keys :: "(string \<Rightarrow> error + bool) \<Rightarrow> string list \<Rightarrow> error + string list" where
  "filter_keys keep [] = Inr []"
| "filter_keys keep (k # ks) =
     (case keep k of
        Inl e \<Rightarrow> Inl e
      | Inr b \<Rightarrow>
          (case filter_keys keep ks of
             Inl e \<Rightarrow> Inl e
           | Inr r \<Rightarrow> Inr (if b then k # r else r)))"

text \<open>The recursive \<^verbatim>\<open>_find(obj)\<close>.\<close>

fun find_rec :: "(string \<Rightarrow> error + bool) \<Rightarrow> obj \<Rightarrow> error + string list" where
  "find_rec keep (Obj ps None) = Inr []"
| "find_rec keep (Obj ps (Some p)) =
     (case filter_keys keep (map fst ps) of
        Inl e \<Rightarrow> Inl e
      | Inr keys \<Rightarrow>
          (case find_rec keep p of
             Inl e \<Rightarrow> Inl e
           | Inr rest \<Rightarrow> Inr (keys @ rest)))"

definition findMembers :: "obj \<Rightarrow> find_options \<Rightarrow> error + string list" where
  "findMembers obj opts =
     (if filter_opt opts = None \<and> (prefix opts = None \<or> prefix opts = Some [])
         \<and> specifiedType opts = None
      then Inr []
      else find_rec (shouldKeep obj opts) obj)"

section \<open>BaseValidator\<close>

text \<open>
  The instance: the name of its class (\<^verbatim>\<open>this.constructor.name\<close>); in \<open>self\<close> the
  members that the constructors of the subclasses declare on it, in order, and its
  prototype chain; and the values of the three fields of the base class. The subclasses
  declare members under other names than these three.
\<close>

record validator =
  cname :: string
  self :: obj
  params :: jsval
  paramsChecked :: jsval
  memberKeys :: "string list option"

record ctx =
  request_body :: jsval
  request_query :: jsval
  ctx_params :: jsval
  request_header :: jsval

text \<open>
  The instance as an object: the three fields of the base class come first among its own
  keys. \<^verbatim>\<open>params\<close> and \<^verbatim>\<open>paramsChecked\<close> hold plain objects; \<^verbatim>\<open>memberKeys\<close> is
  undefined before the first \<^verbatim>\<open>validate()\<close> and an array of strings afterwards.
\<close>

definition memberKeys_member :: "string list option \<Rightarrow> member" where
  "memberKeys_member mk = (case mk of None \<Rightarrow> Other | Some ks \<Rightarrow> Arr (map (\<lambda>_. NotRule) ks))"

definition this_object :: "validator \<Rightarrow> obj" where
  "this_object v =
     Obj ([(''params'', Other), (''paramsChecked'', Other),
           (''memberKeys'', memberKeys_member (memberKeys v))] @ ownProps (self v))
       (proto (self v))"

definition assembleAllParams :: "ctx \<Rightarrow> jsval" where
  "assembleAllParams c =
     JObj [(''body'', request_body c), (''query'', request_query c),
           (''path'', ctx_params c), (''header'', request_header c)]"

text \<open>
  The constructor. \<^verbatim>\<open>_.cloneDeep\<close> is the identity on values; \<open>this_obj\<close> holds what
  the constructors of the subclasses declare, and the prototype chain.
\<close>

definition BaseValidator :: "string \<Rightarrow> obj \<Rightarrow> ctx \<Rightarrow> validator" where
  "BaseValidator cn this_obj c =
     \<lparr>cname = cn, self = this_obj, params = assembleAllParams c,
      paramsChecked = assembleAllParams c, memberKeys = None\<rparr>"

text \<open>\<^verbatim>\<open>/validate([A-Z])\w+/.test(key)\<close>: the pattern may start anywhere in the key.\<close>

fun validate_pattern :: "string \<Rightarrow> bool" where
  "validate_pattern [] = False"
| "validate_pattern (c # cs) =
     ((take 8 (c # cs) = ''validate''
        \<and> (case drop 8 (c # cs) of u # w # _ \<Rightarrow> is_upper u \<and> is_word w | _ \<Rightarrow> False))
      \<or> validate_pattern cs)"

fun isRuleType :: "elem \<Rightarrow> bool" where
  "isRuleType (RuleE _) = True"
| "isRuleType NotRule = False"

definition findMembersFilter :: "validator \<Rightarrow> string \<Rightarrow> error + bool" where
  "findMembersFilter v key =
     (if validate_pattern key then Inr True
      else (case getMember (this_object v) key of
              Some (Arr es) \<Rightarrow>
                if list_ex (\<lambda>e. \<not> isRuleType e) es
                then Inl (Error (cname v @ msg_in_validator @ key @ msg_not_all_rules))
                else Inr True
            | _ \<Rightarrow> Inr False))"

record param =
  pvalue :: jsval
  ppath :: "string list"

definition findParam :: "validator \<Rightarrow> string \<Rightarrow> param" where
  "findParam v key =
     (let value = lodash_get (params v) [''query'', key] JUndefined in
      if truthy value then \<lparr>pvalue = value, ppath = [''query'', key]\<rparr>
      else let value = lodash_get (params v) [''body'', key] JUndefined in
      if truthy value then \<lparr>pvalue = value, ppath = [''body'', key]\<rparr>
      else let value = lodash_get (params v) [''path'', key] JUndefined in
      if truthy value then \<lparr>pvalue = value, ppath = [''path'', key]\<rparr>
      else let value = lodash_get (params v) [''header'', key] JUndefined in
      if truthy value then \<lparr>pvalue = value, ppath = [''header'', key]\<rparr>
      else \<lparr>pvalue = JNull, ppath = []\<rparr>)"

record check_result =
  cmessage :: string
  success :: bool

text \<open>\<^verbatim>\<open>_check(key)\<close>, returning the validator as the call leaves it.\<close>

definition check :: "host \<Rightarrow> validator \<Rightarrow> string \<Rightarrow> error + (validator \<times> check_result)" where
  "check h v key =
     (case getMember (this_object v) key of
        Some (Func f) \<Rightarrow>
          (case f (params v) of
             None \<Rightarrow> Inr (v, \<lparr>cmessage = ''ok'', success = True\<rparr>)
           | Some err \<Rightarrow>
               if nullish err then Inl TypeError
               else Inr (v, \<lparr>cmessage =
                          to_str h (if truthy (getProp err ''message'') then getProp err ''message''
                                    else JStr msg_param_error),
                        success = False\<rparr>))
      | m \<Rightarrow>
          (case rule_elements m of
             None \<Rightarrow> Inl TypeError
           | Some rules \<Rightarrow>
               (let param = findParam v key in
                case snd (RuleField_validate h (cname v) key rules (pvalue param)) of
                  Inl e \<Rightarrow> Inl e
                | Inr result \<Rightarrow>
                    if pass result
                    then Inr (v\<lparr>paramsChecked :=
                                 lodash_set (paramsChecked v)
                                   (if ppath param = [] then [''default'', key] else ppath param)
                                   (legalValue result)\<rparr>,
                              \<lparr>cmessage = ''ok'', success = True\<rparr>)
                    else Inr (v, \<lparr>cmessage = key @ colon @ to_str h (rmessage result),
                                  success = False\<rparr>))))"

text \<open>The loop of \<^verbatim>\<open>validate()\<close> over the member keys.\<close>

fun check_loop ::
  "host \<Rightarrow> validator \<Rightarrow> string list \<Rightarrow> string list \<Rightarrow> error + (validator \<times> string list)" where
  "check_loop h v [] errorMessages = Inr (v, errorMessages)"
| "check_loop h v (memberKey # ks) errorMessages =
     (case check h v memberKey of
        Inl e \<Rightarrow> Inl e
      | Inr (v', result) \<Rightarrow>
          check_loop h v' ks
            (if \<not> success result then errorMessages @ [cmessage result] else errorMessages))"

definition validate :: "host \<Rightarrow> validator \<Rightarrow> error + validator" where
  "validate h v =
     (case findMembers (this_object v)
             \<lparr>filter_opt = Some (findMembersFilter v), prefix = None, specifiedType = None\<rparr> of
        Inl e \<Rightarrow> Inl e
      | Inr keys \<Rightarrow>
          (case check_loop h (v\<lparr>memberKeys := Some keys\<rparr>) keys [] of
             Inl e \<Rightarrow> Inl e
           | Inr (v', errorMessages) \<Rightarrow>
               if errorMessages \<noteq> [] then Inl (ParameterException 10001 errorMessages)
               else Inr v'))"


section \<open>A sample host\<close>

text \<open>
  A concrete host for evaluating the model. It agrees with validator.js
  (\<^verbatim>\<open>isInt\<close> on unsigned decimal numerals, \<^verbatim>\<open>isBoolean\<close> with its default options) and
  with \<^verbatim>\<open>parseInt\<close> and \<^verbatim>\<open>parseFloat\<close> on strings of decimal digits, which is all the
  examples below convert.
\<close>

definition digits_value :: "string \<Rightarrow> nat" where
  "digits_value s = foldl (\<lambda>n c. 10 * n + (of_char c - 48)) 0 s"

definition sample_isInt :: "string \<Rightarrow> jsval list \<Rightarrow> bool" where
  "sample_isInt s opts = (s \<noteq> [] \<and> list_all is_digit s \<and> (s = ''0'' \<or> hd s \<noteq> CHR ''0''))"

definition sample_isBoolean :: "string \<Rightarrow> jsval list \<Rightarrow> bool" where
  "sample_isBoolean s opts = (s \<in> set [''true'', ''false'', ''1'', ''0''])"

definition sample_parse :: "jsval \<Rightarrow> jsval" where
  "sample_parse v =
     (case v of
        JStr s \<Rightarrow> if s \<noteq> [] \<and> list_all is_digit s then JNum (of_nat (digits_value s)) else JNaN
      | _ \<Rightarrow> JNaN)"

definition sample_host :: host where
  "sample_host =
     \<lparr>catalog = (\<lambda>n. if n = ''isInt'' then Some sample_isInt
                     else if n = ''isBoolean'' then Some sample_isBoolean else None),
      parseInt = sample_parse, parseFloat = sample_parse,
      toString = (\<lambda>_. ''[object Object]'')\<rparr>"

text \<open>
  The prototype of the base class, with its methods in the order of the source, on top of
  the root object; and a request context.
\<close>

definition a_method :: member where
  "a_method = Func (\<lambda>_. None)"

definition root_object :: obj where
  "root_object = Obj [(''constructor'', a_method), (''toString'', a_method)] None"

definition base_prototype :: obj where
  "base_prototype =
     Obj [(''constructor'', a_method), (''_initParams'', a_method), (''get'', a_method),
          (''validate'', a_method), (''_check'', a_method), (''_assembleAllParams'', a_method),
          (''_findMembersFilter'', a_method), (''_findParam'', a_method)]
       (Some root_object)"

definition request :: "(string \<times> jsval) list \<Rightarrow> ctx" where
  "request q = \<lparr>request_body = JObj [], request_query = JObj q, ctx_params = JObj [],
                request_header = JObj []\<rparr>"

section \<open>The specification's readings\<close>

text \<open>
  The coercion as the specification words it: integer coercion before float coercion
  before boolean coercion, whatever the order of the rules.
\<close>

definition convert_by_precedence :: "host \<Rightarrow> elem list \<Rightarrow> jsval \<Rightarrow> jsval" where
  "convert_by_precedence h es v =
     (if Some ''isInt'' \<in> ename ` set es then parseInt h v
      else if Some ''isFloat'' \<in> ename ` set es then parseFloat h v
      else if Some ''isBoolean'' \<in> ename ` set es then JBool (truthy v)
      else v)"

text \<open>The coercion by the first coercion-bearing rule in declared order.\<close>

definition is_coercion :: "elem \<Rightarrow> bool" where
  "is_coercion e =
     (ename e = Some ''isInt'' \<or> ename e = Some ''isFloat'' \<or> ename e = Some ''isBoolean'')"

definition convert_first :: "host \<Rightarrow> elem list \<Rightarrow> jsval \<Rightarrow> jsval" where
  "convert_first h es v =
     (case find is_coercion es of
        None \<Rightarrow> v
      | Some e \<Rightarrow>
          if ename e = Some ''isInt'' then parseInt h v
          else if ename e = Some ''isFloat'' then parseFloat h v
          else JBool (truthy v))"

text \<open>
  The own-property lists of an object and of its ancestors, nearest first, without the
  root object (the one whose \<^verbatim>\<open>__proto__\<close> is null); and the keys they declare.
\<close>

fun levels :: "obj \<Rightarrow> (string \<times> member) list list" where
  "levels (Obj ps None) = []"
| "levels (Obj ps (Some p)) = ps # levels p"

definition declared_keys :: "obj \<Rightarrow> string list" where
  "declared_keys obj = concat (map (map fst) (levels obj))"

text \<open>The call of \<^verbatim>\<open>findMembers\<close> in \<^verbatim>\<open>validate()\<close>.\<close>

definition discovery :: "validator \<Rightarrow> error + string list" where
  "discovery v =
     findMembers (this_object v)
       \<lparr>filter_opt = Some (findMembersFilter v), prefix = None, specifiedType = None\<rparr>"

text \<open>
  A member that makes the discovery throw: its name does not match the custom-check
  pattern and it is an array with an element that is no Rule.
\<close>

definition offending :: "validator \<Rightarrow> string \<Rightarrow> bool" where
  "offending v k =
     (\<not> validate_pattern k
      \<and> (case getMember (this_object v) k of
            Some (Arr es) \<Rightarrow> list_ex (\<lambda>e. \<not> isRuleType e) es
          | _ \<Rightarrow> False))"

text \<open>
  The lookup of a field as the specification words it: the first of the four sources, in
  the order query, body, path, header, in which the field is present; absent when it is in
  none of them.
\<close>

definition sources :: "string list" where
  "sources = [''query'', ''body'', ''path'', ''header'']"




section \<open>Outcomes and writes of the members\<close>










fun apply_writes :: "jsval \<Rightarrow> (string list \<times> jsval) list \<Rightarrow> jsval" where
  "apply_writes pc [] = pc"
| "apply_writes pc ((p, x) # ws) = apply_writes (lodash_set pc p x) ws"

section \<open>Sample validators\<close>

text \<open>A subclass of a subclass, both declaring the custom check \<^verbatim>\<open>validateName\<close>.\<close>

definition override_validator :: validator where
  "override_validator =
     BaseValidator ''ChildValidator''
       (Obj []
         (Some (Obj [(''constructor'', a_method), (''validateName'', a_method)]
           (Some (Obj [(''constructor'', a_method), (''validateName'', a_method)]
             (Some base_prototype))))))
       (request [])"

text \<open>
  A validator declaring \<^verbatim>\<open>this.validateTags = ['not-a-rule']\<close>, and one declaring
  \<^verbatim>\<open>this.tags = ['not-a-rule']\<close> and then \<^verbatim>\<open>this.labels = ['not-a-rule']\<close>.
\<close>

definition validateTags_validator :: validator where
  "validateTags_validator =
     BaseValidator ''TagsValidator''
       (Obj [(''validateTags'', Arr [NotRule])]
         (Some (Obj [(''constructor'', a_method)] (Some base_prototype))))
       (request [])"

definition tags_validator :: validator where
  "tags_validator =
     BaseValidator ''TagsValidator''
       (Obj [(''tags'', Arr [NotRule]), (''labels'', Arr [NotRule])]
         (Some (Obj [(''constructor'', a_method)] (Some base_prototype))))
       (request [])"










text \<open>
  A custom check that signals its failure with no value at all (a promise rejected without
  a reason, \<^verbatim>\<open>throw undefined\<close>).
\<close>

definition unique_validator :: validator where
  "unique_validator =
     BaseValidator ''UniqueValidator''
       (Obj []
         (Some (Obj [(''constructor'', a_method), (''validateUnique'', Func (\<lambda>_. Some JUndefined))]
           (Some base_prototype))))
       (request [])"

text \<open>
  An optional field \<^verbatim>\<open>age\<close> with the declared default 0, and a request whose body
  holds the number 0 for it.
\<close>

definition zero_validator :: validator where
  "zero_validator =
     BaseValidator ''ZeroValidator''
       (Obj [(''age'', Arr [RuleE (Rule ''isInt'' (JStr ''age must be an integer'') []),
                           RuleE (Rule ''isOptional'' (JStr []) [JNum 0])])]
         (Some (Obj [(''constructor'', a_method)] (Some base_prototype))))
       \<lparr>request_body = JObj [(''age'', JNum 0)], request_query = JObj [],
        ctx_params = JObj [], request_header = JObj []\<rparr>"

section \<open>Property paths without brackets\<close>



section \<open>The field validator\<close>

lemma allowEmpty_iff: "allowEmpty es \<longleftrightarrow> Some ''isOptional'' \<in> ename ` set es"
  by (induction es) auto

lemma convert_eq_first: "convert h es v = convert_first h es v"
  by (induction es) (auto simp: convert_first_def is_coercion_def)

lemma convert_passthrough: "\<not> list_ex is_coercion es \<Longrightarrow> convert h es v = v"
  by (induction es) (auto simp: is_coercion_def)

lemma RuleField_validate_absent:
  "nullish v \<Longrightarrow> RuleField_validate h cn field rules v =
     (if allowEmpty rules then
        (if truthy (hasDefault rules)
         then ([], Inr \<lparr>pass = True, rmessage = JStr [], legalValue = hasDefault rules\<rparr>)
         else ([], Inl (Error (cn @ msg_in_validator @ field @ msg_no_default))))
      else ([], Inr \<lparr>pass = False, rmessage = JStr msg_required, legalValue = JNull\<rparr>))"
  by (simp add: RuleField_validate_def)

lemma RuleField_validate_pass_legal:
  assumes "snd (RuleField_validate h cn field rules v) = Inr r" and "pass r" and "\<not> nullish v"
  shows "legalValue r = convert h rules v"
  using assms
  by (auto simp: RuleField_validate_def split: prod.splits sum.splits if_splits)

text \<open>
  C6: for a rule set without an \<^verbatim>\<open>isOptional\<close> rule, validating an absent (null or
  undefined) value fails with the message that the field is required, and the catalog is
  not looked up once: the list of lookups is empty.
\<close>

theorem absent_required_fails:
  assumes "Some ''isOptional'' \<notin> ename ` set rules" and "nullish v"
  shows "RuleField_validate h cn field rules v =
           ([], Inr \<lparr>pass = False, rmessage = JStr msg_required, legalValue = JNull\<rparr>)"
  using assms by (simp add: RuleField_validate_absent allowEmpty_iff)

theorem absent_required_fails_witness:
  "Some ''isOptional'' \<notin> ename ` set [RuleE (Rule ''isInt'' (JStr ''not a number'') [])]
   \<and> nullish JNull
   \<and> RuleField_validate sample_host ''V'' ''age''
        [RuleE (Rule ''isInt'' (JStr ''not a number'') [])] JNull =
       ([], Inr \<lparr>pass = False, rmessage = JStr msg_required, legalValue = JNull\<rparr>)"
  using absent_required_fails [of "[RuleE (Rule ''isInt'' (JStr ''not a number'') [])]" JNull
      sample_host "''V''" "''age''"]
  by simp

text \<open>
  C2: an \<^verbatim>\<open>isOptional\<close> rule that declares the default 0, and an absent value. The call
  throws the Error whose message says that no default was set, although one was declared:
  a falsy default is taken for a missing one.
\<close>

theorem falsy_default_is_fatal:
  "RuleField_validate h cn field [RuleE (Rule ''isOptional'' (JStr []) [JNum 0])] JNull =
     ([], Inl (Error (cn @ msg_in_validator @ field @ msg_no_default)))"
  by (simp add: RuleField_validate_def)

text \<open>
  C3, as stated, fails: with the rules \<^verbatim>\<open>isBoolean\<close> then \<^verbatim>\<open>isInt\<close> and the value "1",
  which passes both, the legal value is the boolean true, where integer coercion before
  boolean coercion gives the number 1.
\<close>

theorem coercion_precedence_counterexample:
  "snd (RuleField_validate sample_host ''V'' ''flag''
          [RuleE (Rule ''isBoolean'' (JStr []) []), RuleE (Rule ''isInt'' (JStr []) [])]
          (JStr ''1'')) =
     Inr \<lparr>pass = True, rmessage = JStr [], legalValue = JBool True\<rparr>
   \<and> convert_by_precedence sample_host
        [RuleE (Rule ''isBoolean'' (JStr []) []), RuleE (Rule ''isInt'' (JStr []) [])]
        (JStr ''1'') = JNum 1"
  by (simp add: RuleField_validate_def Rule_validate_def sample_host_def sample_isInt_def
      sample_isBoolean_def is_digit_def convert_by_precedence_def sample_parse_def
      digits_value_def)

text \<open>
  C3, amended: for a present value that passes every rule of the field, the legal value is
  the value coerced once, by the first rule in declared order whose name is \<^verbatim>\<open>isInt\<close>,
  \<^verbatim>\<open>isFloat\<close> or \<^verbatim>\<open>isBoolean\<close> (integer parse, float parse, boolean coercion); with no
  such rule it is the raw value unchanged.
\<close>

theorem legal_value_first_coercion:
  assumes "snd (RuleField_validate h cn field rules v) = Inr r" and "pass r" and "\<not> nullish v"
  shows "legalValue r = convert_first h rules v
         \<and> (\<not> list_ex is_coercion rules \<longrightarrow> legalValue r = v)"
  using RuleField_validate_pass_legal [OF assms]
  by (simp add: convert_eq_first [symmetric] convert_passthrough)

theorem legal_value_first_coercion_witness:
  "snd (RuleField_validate sample_host ''V'' ''flag''
          [RuleE (Rule ''isBoolean'' (JStr []) []), RuleE (Rule ''isInt'' (JStr []) [])]
          (JStr ''1'')) =
     Inr \<lparr>pass = True, rmessage = JStr [], legalValue = JBool True\<rparr>
   \<and> pass \<lparr>pass = True, rmessage = JStr [], legalValue = JBool True\<rparr>
   \<and> \<not> nullish (JStr ''1'')
   \<and> legalValue \<lparr>pass = True, rmessage = JStr [], legalValue = JBool True\<rparr> =
       convert_first sample_host
         [RuleE (Rule ''isBoolean'' (JStr []) []), RuleE (Rule ''isInt'' (JStr []) [])]
         (JStr ''1'')"
proof -
  have run: "snd (RuleField_validate sample_host ''V'' ''flag''
          [RuleE (Rule ''isBoolean'' (JStr []) []), RuleE (Rule ''isInt'' (JStr []) [])]
          (JStr ''1'')) =
     Inr \<lparr>pass = True, rmessage = JStr [], legalValue = JBool True\<rparr>"
    by (simp add: RuleField_validate_def Rule_validate_def sample_host_def sample_isInt_def
        sample_isBoolean_def is_digit_def)
  from legal_value_first_coercion [OF run] run show ?thesis by simp
qed

section \<open>Member discovery\<close>

lemma shouldKeep_filter:
  "shouldKeep obj \<lparr>filter_opt = Some f, prefix = None, specifiedType = None\<rparr> key = f key"
  by (auto simp: shouldKeep_def split: sum.splits bool.splits)

lemma discovery_find_rec: "discovery v = find_rec (findMembersFilter v) (this_object v)"
proof -
  have "shouldKeep (this_object v)
          \<lparr>filter_opt = Some (findMembersFilter v), prefix = None, specifiedType = None\<rparr> =
        findMembersFilter v"
    by (rule ext) (simp add: shouldKeep_filter)
  then show ?thesis by (simp add: discovery_def findMembers_def)
qed

lemma validate_discovery:
  "validate h v =
     (case discovery v of
        Inl e \<Rightarrow> Inl e
      | Inr keys \<Rightarrow>
          (case check_loop h (v\<lparr>memberKeys := Some keys\<rparr>) keys [] of
             Inl e \<Rightarrow> Inl e
           | Inr (v', errorMessages) \<Rightarrow>
               if errorMessages \<noteq> [] then Inl (ParameterException 10001 errorMessages)
               else Inr v'))"
  by (simp add: validate_def discovery_def)

lemma filter_keys_ok:
  "\<forall>k \<in> set ks. \<exists>b. keep k = Inr b \<Longrightarrow>
     filter_keys keep ks = Inr (filter (\<lambda>k. keep k = Inr True) ks)"
  by (induction ks) auto

lemma find_rec_ok:
  "\<forall>k \<in> set (declared_keys obj). \<exists>b. keep k = Inr b \<Longrightarrow>
     find_rec keep obj =
       Inr (concat (map (\<lambda>ps. filter (\<lambda>k. keep k = Inr True) (map fst ps)) (levels obj)))"
proof (induction keep obj rule: find_rec.induct)
  case (1 keep ps)
  then show ?case by simp
next
  case (2 keep ps p)
  then show ?case by (simp add: declared_keys_def filter_keys_ok)
qed

text \<open>The first key on which the filter throws decides the error.\<close>

lemma filter_keys_first_error:
  "find (\<lambda>k. isl (keep k)) ks = Some k0 \<Longrightarrow> filter_keys keep ks = Inl (projl (keep k0))"
  by (induction ks) (auto split: sum.splits if_splits)

lemma filter_keys_no_error:
  "find (\<lambda>k. isl (keep k)) ks = None \<Longrightarrow> \<exists>r. filter_keys keep ks = Inr r"
  by (induction ks) (auto split: sum.splits if_splits)

lemma declared_keys_Some [simp]:
  "declared_keys (Obj ps (Some p)) = map fst ps @ declared_keys p"
  by (simp add: declared_keys_def)

lemma declared_keys_None [simp]: "declared_keys (Obj ps None) = []"
  by (simp add: declared_keys_def)

lemma find_append:
  "find P (xs @ ys) = (case find P xs of None \<Rightarrow> find P ys | Some x \<Rightarrow> Some x)"
  by (induction xs) auto

lemma find_rec_first_error:
  "find (\<lambda>k. isl (keep k)) (declared_keys obj) = Some k0 \<Longrightarrow>
     find_rec keep obj = Inl (projl (keep k0))"
proof (induction keep obj rule: find_rec.induct)
  case (1 keep ps)
  then show ?case by simp
next
  case (2 keep ps p)
  show ?case
  proof (cases "find (\<lambda>k. isl (keep k)) (map fst ps)")
    case None
    with "2.prems" have "find (\<lambda>k. isl (keep k)) (declared_keys p) = Some k0"
      by (simp add: find_append)
    moreover from None obtain r where r: "filter_keys keep (map fst ps) = Inr r"
      using filter_keys_no_error by blast
    ultimately have "find_rec keep p = Inl (projl (keep k0))"
      using "2.IH" by simp
    with r show ?thesis by simp
  next
    case (Some k)
    with "2.prems" have "k = k0" by (simp add: find_append)
    with Some show ?thesis by (simp add: filter_keys_first_error)
  qed
qed

lemma findMembersFilter_isl: "isl (findMembersFilter v k) \<longleftrightarrow> offending v k"
  by (auto simp: findMembersFilter_def offending_def split: option.splits member.splits)

lemma findMembersFilter_offending:
  "offending v k \<Longrightarrow>
     findMembersFilter v k = Inl (Error (cname v @ msg_in_validator @ k @ msg_not_all_rules))"
  by (auto simp: findMembersFilter_def offending_def split: option.splits member.splits)

lemmas sample_object_defs =
  BaseValidator_def base_prototype_def root_object_def a_method_def
  request_def assembleAllParams_def this_object_def memberKeys_member_def

lemmas pattern_defs = is_upper_def is_word_def is_digit_def

text \<open>
  C7, as stated, fails: names are not de-duplicated. A custom check declared by a class and
  overridden by its subclass is discovered twice.
\<close>

theorem discovery_duplicates_counterexample:
  "find_rec (findMembersFilter override_validator) (this_object override_validator) =
     Inr [''validateName'', ''validateName'']
   \<and> \<not> distinct [''validateName'', ''validateName'']"
  by (simp add: override_validator_def sample_object_defs findMembersFilter_def pattern_defs)

text \<open>
  C7, amended: when the filter raises on no declared key, \<^verbatim>\<open>_find\<close> returns the kept keys
  of the instance itself followed by the kept keys of each ancestor in turn, nearest first
  and without the root object, each level in its own-key order; nothing is de-duplicated,
  so a name kept at several levels appears once for each. The result is a function of the
  object and the filter.
\<close>

theorem discovery_concatenates_levels:
  assumes "\<forall>k \<in> set (declared_keys obj). \<exists>b. keep k = Inr b"
  shows "find_rec keep obj =
           Inr (concat (map (\<lambda>ps. filter (\<lambda>k. keep k = Inr True) (map fst ps)) (levels obj)))"
  using assms by (rule find_rec_ok)

theorem discovery_concatenates_levels_witness:
  "find_rec (findMembersFilter override_validator) (this_object override_validator) =
     Inr (concat (map (\<lambda>ps. filter (\<lambda>k. findMembersFilter override_validator k = Inr True)
                                (map fst ps))
                    (levels (this_object override_validator))))
   \<and> levels (this_object override_validator) =
       [[(''params'', Other), (''paramsChecked'', Other), (''memberKeys'', Other)],
        [(''constructor'', a_method), (''validateName'', a_method)],
        [(''constructor'', a_method), (''validateName'', a_method)],
        ownProps base_prototype]"
proof -
  have "\<forall>k \<in> set (declared_keys (this_object override_validator)).
          \<exists>b. findMembersFilter override_validator k = Inr b"
    by (auto simp: override_validator_def sample_object_defs
        findMembersFilter_def pattern_defs)
  from discovery_concatenates_levels [OF this]
  show ?thesis
    by (simp add: override_validator_def BaseValidator_def base_prototype_def root_object_def
        this_object_def memberKeys_member_def)
qed

lemmas evaluation_defs =
  validate_discovery discovery_find_rec findMembersFilter_def pattern_defs check_def
  findParam_def lodash_get_def RuleField_validate_def Rule_validate_def
  object_prototype_keys_def guarded_key_def

text \<open>
  C8, as stated, fails: a member whose name matches the custom-check pattern is kept before
  its value is looked at. The array \<^verbatim>\<open>validateTags = ['not-a-rule']\<close> passes discovery, and
  with the field absent from the request the call ends in the user-facing rejection.
\<close>

theorem non_rule_array_counterexample:
  "discovery validateTags_validator = Inr [''validateTags'']
   \<and> validate sample_host validateTags_validator =
       Inl (ParameterException 10001 [''validateTags'' @ colon @ msg_required])"
  by (simp add: validateTags_validator_def sample_object_defs evaluation_defs)

text \<open>
  C8, amended: when a declared member whose name does not match the custom-check pattern is
  an array with an element that is no Rule, \<^verbatim>\<open>validate()\<close> throws during member discovery
  (the discovery itself throws, so no field is checked) a plain Error, not the
  ParameterException, whose message is made of the validator's class name and of the name
  of the first such member in discovery order. A member whose name matches the pattern is
  kept whatever its value, and an empty array is kept as a rule set.
\<close>

theorem non_rule_array_is_authoring_error:
  assumes "key \<in> set (declared_keys (this_object v))"
    and "\<not> validate_pattern key"
    and "getMember (this_object v) key = Some (Arr es)"
    and "list_ex (\<lambda>e. \<not> isRuleType e) es"
  shows "(\<exists>k0. find (offending v) (declared_keys (this_object v)) = Some k0
            \<and> discovery v = Inl (Error (cname v @ msg_in_validator @ k0 @ msg_not_all_rules))
            \<and> validate h v = Inl (Error (cname v @ msg_in_validator @ k0 @ msg_not_all_rules)))
         \<and> (\<forall>k. validate_pattern k \<longrightarrow> findMembersFilter v k = Inr True)
         \<and> (\<forall>k. getMember (this_object v) k = Some (Arr []) \<longrightarrow> findMembersFilter v k = Inr True)"
proof -
  from assms(2-4) have "offending v key" by (simp add: offending_def)
  with assms(1) obtain k0 where k0: "find (offending v) (declared_keys (this_object v)) = Some k0"
    by (cases "find (offending v) (declared_keys (this_object v))") (auto simp: find_None_iff)
  then have off: "offending v k0" by (auto simp: find_Some_iff)
  have "(\<lambda>k. isl (findMembersFilter v k)) = offending v"
    by (rule ext) (rule findMembersFilter_isl)
  with k0 have "find_rec (findMembersFilter v) (this_object v) =
      Inl (projl (findMembersFilter v k0))"
    by (intro find_rec_first_error) simp
  with off have d: "discovery v = Inl (Error (cname v @ msg_in_validator @ k0 @ msg_not_all_rules))"
    by (simp add: discovery_find_rec findMembersFilter_offending)
  then have "validate h v = Inl (Error (cname v @ msg_in_validator @ k0 @ msg_not_all_rules))"
    by (simp add: validate_discovery)
  with k0 d show ?thesis by (simp add: findMembersFilter_def)
qed

theorem non_rule_array_is_authoring_error_witness:
  "''labels'' \<in> set (declared_keys (this_object tags_validator))
   \<and> \<not> validate_pattern ''labels''
   \<and> getMember (this_object tags_validator) ''labels'' = Some (Arr [NotRule])
   \<and> list_ex (\<lambda>e. \<not> isRuleType e) [NotRule]
   \<and> find (offending tags_validator) (declared_keys (this_object tags_validator)) = Some ''tags''
   \<and> validate sample_host tags_validator =
       Inl (Error (''TagsValidator'' @ msg_in_validator @ ''tags'' @ msg_not_all_rules))"
proof -
  have a: "''labels'' \<in> set (declared_keys (this_object tags_validator))"
    by (simp add: tags_validator_def sample_object_defs)
  have b: "\<not> validate_pattern ''labels''" by simp
  have c: "getMember (this_object tags_validator) ''labels'' = Some (Arr [NotRule])"
    by (simp add: tags_validator_def sample_object_defs)
  have d: "list_ex (\<lambda>e. \<not> isRuleType e) [NotRule]" by simp
  have f: "find (offending tags_validator) (declared_keys (this_object tags_validator)) =
      Some ''tags''"
    by (simp add: tags_validator_def sample_object_defs offending_def pattern_defs)
  have e: "validate sample_host tags_validator =
       Inl (Error (''TagsValidator'' @ msg_in_validator @ ''tags'' @ msg_not_all_rules))"
    using non_rule_array_is_authoring_error [OF a b c d, of sample_host] f
    by (simp add: tags_validator_def BaseValidator_def)
  from a b c d e f show ?thesis by simp
qed

section \<open>The validation loop\<close>











lemmas sample_host_defs = sample_host_def sample_isInt_def sample_isBoolean_def is_digit_def
  sample_parse_def digits_value_def






section \<open>Locating a field and writing it back\<close>










lemmas sample_defs = sample_object_defs evaluation_defs sample_host_defs






section \<open>Reading the checked parameters\<close>



lemma apply_writes_append:
  "apply_writes pc (ws @ ws') = apply_writes (apply_writes pc ws) ws'"
  by (induction pc ws rule: apply_writes.induct) auto


































section \<open>Failures that escape\<close>

lemma custom_check_failure_caught:
  assumes "getMember (this_object v) key = Some (Func f)" and "f (params v) = Some err"
    and "\<not> nullish err"
  shows "check h v key =
           Inr (v, \<lparr>cmessage = to_str h (if truthy (getProp err ''message'')
                                          then getProp err ''message'' else JStr msg_param_error),
                    success = False\<rparr>)"
  using assms by (simp add: check_def)

lemma falsy_everywhere_is_absent:
  assumes "\<forall>s \<in> set sources. \<not> truthy (lodash_get (params v) [s, key] JUndefined)"
  shows "findParam v key = \<lparr>pvalue = JNull, ppath = []\<rparr>"
  using assms by (simp add: findParam_def sources_def)

lemma falsy_everywhere_field_result:
  assumes "\<forall>s \<in> set sources. \<not> truthy (lodash_get (params v) [s, key] JUndefined)"
  shows "RuleField_validate h cn key rules (pvalue (findParam v key)) =
           (if Some ''isOptional'' \<in> ename ` set rules then
              (if truthy (hasDefault rules)
               then ([], Inr \<lparr>pass = True, rmessage = JStr [], legalValue = hasDefault rules\<rparr>)
               else ([], Inl (Error (cn @ msg_in_validator @ key @ msg_no_default))))
            else ([], Inr \<lparr>pass = False, rmessage = JStr msg_required, legalValue = JNull\<rparr>))"
  by (simp add: falsy_everywhere_is_absent [OF assms] RuleField_validate_absent allowEmpty_iff)

text \<open>
  C9: a custom check that throws undefined. The catch clause of \<^verbatim>\<open>_check\<close> reads
  \<^verbatim>\<open>error.message\<close>, which raises a TypeError on undefined (and on null): the failure
  is not turned into a message, the scan stops, and \<^verbatim>\<open>validate()\<close> ends in the raw
  TypeError. Every other thrown value is caught and turned into a message, as
  \<open>custom_check_failure_caught\<close> says.
\<close>

theorem nullish_throw_escapes:
  "discovery unique_validator = Inr [''validateUnique'']
   \<and> check h unique_validator ''validateUnique'' = Inl TypeError
   \<and> validate h unique_validator = Inl TypeError"
  by (simp add: unique_validator_def sample_defs)

text \<open>
  C10: the body holds the falsy value 0 for the optional field \<^verbatim>\<open>age\<close>, whose declared
  default is 0. The lookup does treat the field as absent (\<open>falsy_everywhere_is_absent\<close>),
  but the field does not resolve to its declared default: the falsy default is taken for a
  missing one, and the call throws the Error that says no default was set.
\<close>

theorem falsy_value_falsy_default_is_fatal:
  "lodash_get (params zero_validator) [''body'', ''age''] JUndefined = JNum 0
   \<and> findParam zero_validator ''age'' = \<lparr>pvalue = JNull, ppath = []\<rparr>
   \<and> check h zero_validator ''age'' =
       Inl (Error (''ZeroValidator'' @ msg_in_validator @ ''age'' @ msg_no_default))
   \<and> validate h zero_validator =
       Inl (Error (''ZeroValidator'' @ msg_in_validator @ ''age'' @ msg_no_default))"
  by (simp add: zero_validator_def sample_defs)

end
